theory Spec2Isabelle
  imports Complex_Main "HOL-Library.AList" "HOL-Library.Multiset"
begin

section \<open>Python values, exceptions and built-ins\<close>

text \<open>
  The module \<^verbatim>\<open>adm.py\<close> computes with Python integers and floats. Integers are \<open>int\<close>.
  Floats are modelled by \<open>real\<close> with exact arithmetic: the rounding of IEEE doubles,
  their overflow, infinities and NaN are outside this model. An \<open>int\<close> that meets a float
  is converted with \<open>real_of_int\<close>, as Python converts it.

  Every exception the module can raise is a value of \<open>error\<close>; a function that can raise
  returns \<open>error + 'a\<close>, with \<open>Inl\<close> for the exception. Python's \<^verbatim>\<open>ValueError\<close> has three
  sources here, kept apart so that a theorem can say which one was raised.
\<close>

datatype error =
    DimensionMismatch
  | InvalidLiteral
  | NotInList
  | IndexError
  | KeyError
  | ZeroDivisionError
  | ComplexResult

text \<open>
  \<open>DimensionMismatch\<close> is the \<^verbatim>\<open>ValueError("Input vectors must have the same dimensionality.")\<close>
  of \<^verbatim>\<open>minkowski_distance\<close>, \<open>InvalidLiteral\<close> the \<^verbatim>\<open>ValueError\<close> of \<^verbatim>\<open>int(s)\<close> and \<^verbatim>\<open>float(s)\<close>,
  \<open>NotInList\<close> the \<^verbatim>\<open>ValueError\<close> of \<^verbatim>\<open>list.index\<close>. \<open>ComplexResult\<close> is no Python exception:
  a negative float raised to a fractional power is a complex number in Python, which a
  \<open>real\<close> cannot hold; the model stops there.
\<close>

definition is_ValueError :: "error \<Rightarrow> bool" where
  "is_ValueError e = (e = DimensionMismatch \<or> e = InvalidLiteral \<or> e = NotInList)"

text \<open>
  The built-ins that read and write strings are parameters of the model: \<^verbatim>\<open>int(s)\<close> and
  \<^verbatim>\<open>float(s)\<close> (\<open>None\<close> where Python raises \<^verbatim>\<open>ValueError\<close>), \<^verbatim>\<open>line.strip().split(',')\<close>,
  \<^verbatim>\<open>s.lower()\<close> and the format \<^verbatim>\<open>f"{x:.4f}"\<close>.
\<close>

record builtins =
  py_cells :: "string \<Rightarrow> string list"
  py_int :: "string \<Rightarrow> int option"
  py_float :: "string \<Rightarrow> real option"
  py_lower :: "string \<Rightarrow> string"
  py_format4 :: "real \<Rightarrow> string"

definition to_int :: "builtins \<Rightarrow> string \<Rightarrow> error + int" where
  "to_int B s = (case py_int B s of None \<Rightarrow> Inl InvalidLiteral | Some n \<Rightarrow> Inr n)"

definition to_float :: "builtins \<Rightarrow> string \<Rightarrow> error + real" where
  "to_float B s = (case py_float B s of None \<Rightarrow> Inl InvalidLiteral | Some x \<Rightarrow> Inr x)"

text \<open>\<^verbatim>\<open>xs[i]\<close> for an index \<open>i \<ge> 0\<close>: \<^verbatim>\<open>IndexError\<close> out of range.\<close>

definition item :: "'a list \<Rightarrow> nat \<Rightarrow> error + 'a" where
  "item xs i = (if i < length xs then Inr (xs ! i) else Inl IndexError)"

text \<open>\<^verbatim>\<open>xs.index(x)\<close>: the first position of \<open>x\<close>, \<^verbatim>\<open>ValueError\<close> when there is none.\<close>

fun index_of :: "'a list \<Rightarrow> 'a \<Rightarrow> error + nat" where
  "index_of [] x = Inl NotInList"
| "index_of (y # ys) x =
     (if y = x then Inr 0
      else (case index_of ys x of Inl e \<Rightarrow> Inl e | Inr i \<Rightarrow> Inr (Suc i)))"

text \<open>\<^verbatim>\<open>a / b\<close>: true division, \<^verbatim>\<open>ZeroDivisionError\<close> for a zero divisor.\<close>

definition py_truediv :: "real \<Rightarrow> real \<Rightarrow> error + real" where
  "py_truediv a b = (if b = 0 then Inl ZeroDivisionError else Inr (a / b))"

text \<open>
  \<^verbatim>\<open>x ** y\<close>: anything to the power 0 is 1; zero to a negative power raises
  \<^verbatim>\<open>ZeroDivisionError\<close>; a negative base takes integral exponents only.
\<close>

definition py_pow :: "real \<Rightarrow> real \<Rightarrow> error + real" where
  "py_pow x y =
     (if y = 0 then Inr 1
      else if x = 0 then (if y < 0 then Inl ZeroDivisionError else Inr 0)
      else if 0 < x then Inr (x powr y)
      else if y = of_int \<lfloor>y\<rfloor> then Inr (x powi \<lfloor>y\<rfloor>)
      else Inl ComplexResult)"

text \<open>
  \<^verbatim>\<open>round(x, n)\<close>: the closest multiple of \<open>10\<^sup>-\<^sup>n\<close>, the even one of two that are equally
  close.
\<close>

definition py_round :: "real \<Rightarrow> nat \<Rightarrow> real" where
  "py_round x n =
     (let s = x * 10 ^ n; f = \<lfloor>s\<rfloor>
      in of_int (if s - of_int f < 1 / 2 then f
                 else if 1 / 2 < s - of_int f then f + 1
                 else if even f then f else f + 1) / 10 ^ n)"

text \<open>
  Two statements in sequence: an exception of the first leaves the block, a value is
  handed to the rest.
\<close>

fun and_then :: "error + 'a \<Rightarrow> ('a \<Rightarrow> error + 'b) \<Rightarrow> error + 'b" where
  "and_then (Inl e) rest = Inl e"
| "and_then (Inr x) rest = rest x"

text \<open>
  A \<^verbatim>\<open>for\<close> loop whose body may raise: the state is threaded through the items, and
  the first exception ends the loop.
\<close>

fun for_each :: "('a \<Rightarrow> 's \<Rightarrow> error + 's) \<Rightarrow> 'a list \<Rightarrow> 's \<Rightarrow> error + 's" where
  "for_each body [] s = Inr s"
| "for_each body (x # xs) s = and_then (body x s) (for_each body xs)"

text \<open>A list comprehension whose element expression may raise.\<close>

fun comprehension :: "('a \<Rightarrow> error + 'b) \<Rightarrow> 'a list \<Rightarrow> error + 'b list" where
  "comprehension f [] = Inr []"
| "comprehension f (x # xs) =
     and_then (f x) (\<lambda>y. and_then (comprehension f xs) (\<lambda>ys. Inr (y # ys)))"

subsection \<open>Dictionaries\<close>

text \<open>
  A Python \<^verbatim>\<open>dict\<close> keeps its keys in insertion order, and two claims are about that
  order, so a dictionary is an association list with distinct keys: \<open>lookup d k\<close> is
  \<^verbatim>\<open>d[k]\<close> with its \<^verbatim>\<open>KeyError\<close>, \<open>AList.update k v d\<close> is \<^verbatim>\<open>d[k] = v\<close> (in place for a key that is there, at the
  end for a new one), \<open>map fst d\<close> is \<^verbatim>\<open>d.keys()\<close>.

  \<open>append_item d k v\<close> is the pair of statements
  \<^verbatim>\<open>if k not in d: d[k] = []\<close> and \<^verbatim>\<open>d[k].append(v)\<close>.
\<close>

definition lookup :: "('k \<times> 'v) list \<Rightarrow> 'k \<Rightarrow> error + 'v" where
  "lookup d k = (case map_of d k of None \<Rightarrow> Inl KeyError | Some v \<Rightarrow> Inr v)"

definition append_item :: "('k \<times> 'v list) list \<Rightarrow> 'k \<Rightarrow> 'v \<Rightarrow> ('k \<times> 'v list) list" where
  "append_item d k v =
     (case map_of d k of
        None \<Rightarrow> AList.update k [v] d
      | Some vs \<Rightarrow> AList.update k (vs @ [v]) d)"

section \<open>The distance engine\<close>

text \<open>
  \<^verbatim>\<open>minkowski_distance(x1, x2, p)\<close>. The loop runs over \<^verbatim>\<open>range(len(x1))\<close> with the
  accumulator \<^verbatim>\<open>distance\<close>; both lists have the length of \<open>x1\<close> there.
\<close>

fun minkowski_sum :: "real list \<Rightarrow> real list \<Rightarrow> real \<Rightarrow> nat list \<Rightarrow> real \<Rightarrow> error + real" where
  "minkowski_sum x1 x2 p [] distance = Inr distance"
| "minkowski_sum x1 x2 p (i # is) distance =
     and_then (py_pow \<bar>x1 ! i - x2 ! i\<bar> p)
       (\<lambda>t. minkowski_sum x1 x2 p is (distance + t))"

definition minkowski_distance :: "real list \<Rightarrow> real list \<Rightarrow> real \<Rightarrow> error + real" where
  "minkowski_distance x1 x2 p =
     (if length x1 \<noteq> length x2 then Inl DimensionMismatch
      else and_then (minkowski_sum x1 x2 p [0..<length x1] 0) (\<lambda>distance.
           and_then (py_truediv 1 p) (\<lambda>q.
           py_pow distance q)))"

text \<open>
  \<^verbatim>\<open>calculate_minkowski_distances(filename, p)\<close>, from the lines that \<^verbatim>\<open>readlines()\<close>
  returned. \<open>md_row\<close> is the body of the first loop, \<open>md_collect\<close> everything up to the end
  of that loop (the parsing), \<open>md_group\<close> the body of the second loop.
\<close>

definition md_row ::
  "builtins \<Rightarrow> string list \<Rightarrow> nat \<Rightarrow> nat \<Rightarrow> string \<Rightarrow>
   (string \<times> (int \<times> real) list) list \<Rightarrow> error + (string \<times> (int \<times> real) list) list" where
  "md_row B header employees_index median_salary_index line country_data =
     (let row = py_cells B line in
      and_then (index_of header ''country'') (\<lambda>ci.
      and_then (item row ci) (\<lambda>country.
      and_then (item row employees_index) (\<lambda>ec.
      and_then (to_int B ec) (\<lambda>employees.
      and_then (item row median_salary_index) (\<lambda>mc.
      and_then (to_float B mc) (\<lambda>median_salary.
      Inr (append_item country_data country (employees, median_salary)))))))))"

definition md_collect ::
  "builtins \<Rightarrow> string list \<Rightarrow> error + (string \<times> (int \<times> real) list) list" where
  "md_collect B lines =
     and_then (item lines 0) (\<lambda>first.
       let header = py_cells B first in
       and_then (index_of header ''number of employees'') (\<lambda>employees_index.
       and_then (index_of header ''median Salary'') (\<lambda>median_salary_index.
       for_each (md_row B header employees_index median_salary_index) (tl lines) [])))"

definition md_group ::
  "real \<Rightarrow> string \<times> (int \<times> real) list \<Rightarrow> (string \<times> real) list \<Rightarrow> error + (string \<times> real) list" where
  "md_group p entry country_distances =
     (let country = fst entry; points = snd entry;
          x1 = map (\<lambda>point. real_of_int (fst point)) points;
          x2 = map (\<lambda>point. snd point) points in
      and_then (minkowski_distance x1 x2 p) (\<lambda>minkowski_dist.
        Inr (AList.update country (py_round minkowski_dist 4) country_distances)))"

definition calculate_minkowski_distances ::
  "builtins \<Rightarrow> string list \<Rightarrow> real \<Rightarrow> error + (string \<times> real) list" where
  "calculate_minkowski_distances B lines p =
     and_then (md_collect B lines) (\<lambda>country_data.
       for_each (md_group p) country_data [])"

section \<open>The significance engine\<close>

text \<open>
  \<^verbatim>\<open>calculate_t_test(filename)\<close>. \<open>tt_row\<close> is the body of the first loop: the country is
  read before the \<^verbatim>\<open>try\<close>, the two \<^verbatim>\<open>float\<close> calls stand in it, and its handler catches
  \<^verbatim>\<open>ValueError\<close> alone, so a cell that is missing still raises \<^verbatim>\<open>IndexError\<close>. The state
  is the pair of dictionaries \<^verbatim>\<open>(profits_2020, profits_2021)\<close>.
\<close>

type_synonym profits = "(string \<times> real list) list"

definition tt_row ::
  "builtins \<Rightarrow> string list \<Rightarrow> nat \<Rightarrow> nat \<Rightarrow> string \<Rightarrow> profits \<times> profits \<Rightarrow>
   error + profits \<times> profits" where
  "tt_row B header profit_2020_index profit_2021_index line st =
     (let row = py_cells B line in
      and_then (index_of header ''country'') (\<lambda>ci.
      and_then (item row ci) (\<lambda>country.
      and_then (item row profit_2020_index) (\<lambda>c20.
        (case py_float B c20 of
           None \<Rightarrow> Inr st
         | Some profit_2020 \<Rightarrow>
             and_then (item row profit_2021_index) (\<lambda>c21.
               (case py_float B c21 of
                  None \<Rightarrow> Inr st
                | Some profit_2021 \<Rightarrow>
                    Inr (append_item (fst st) country profit_2020,
                         append_item (snd st) country profit_2021))))))))"

definition tt_collect :: "builtins \<Rightarrow> string list \<Rightarrow> error + profits \<times> profits" where
  "tt_collect B lines =
     and_then (item lines 0) (\<lambda>first.
       let header = py_cells B first in
       and_then (index_of header ''profits in 2020(million)'') (\<lambda>profit_2020_index.
       and_then (index_of header ''profits in 2021(million)'') (\<lambda>profit_2021_index.
       for_each (tt_row B header profit_2020_index profit_2021_index) (tl lines) ([], []))))"

text \<open>
  The statistic of one group, lines 98 to 110 of the source, in the order Python
  evaluates them. \<^verbatim>\<open>sum\<close> of a list of floats is \<open>sum_list\<close>.
\<close>

definition t_statistic :: "real list \<Rightarrow> real list \<Rightarrow> error + real" where
  "t_statistic profits_2020_values profits_2021_values =
     (let n1 = int (length profits_2020_values);
          n2 = int (length profits_2021_values) in
      and_then (py_truediv (sum_list profits_2020_values) (of_int n1)) (\<lambda>mean_2020.
      and_then (py_truediv (sum_list profits_2021_values) (of_int n2)) (\<lambda>mean_2021.
      and_then (comprehension (\<lambda>x. py_pow (x - mean_2020) 2) profits_2020_values) (\<lambda>sq_2020.
      and_then (py_truediv (sum_list sq_2020) (of_int (n1 - 1))) (\<lambda>var_2020.
      and_then (py_pow var_2020 (1 / 2)) (\<lambda>std_dev_2020.
      and_then (comprehension (\<lambda>x. py_pow (x - mean_2021) 2) profits_2021_values) (\<lambda>sq_2021.
      and_then (py_truediv (sum_list sq_2021) (of_int (n2 - 1))) (\<lambda>var_2021.
      and_then (py_pow var_2021 (1 / 2)) (\<lambda>std_dev_2021.
      and_then (py_pow std_dev_2020 2) (\<lambda>s1.
      and_then (py_truediv s1 (of_int n1)) (\<lambda>a1.
      and_then (py_pow std_dev_2021 2) (\<lambda>s2.
      and_then (py_truediv s2 (of_int n2)) (\<lambda>a2.
      and_then (py_pow (a1 + a2) (1 / 2)) (\<lambda>denominator.
      py_truediv (mean_2020 - mean_2021) denominator))))))))))))))"

text \<open>
  The body of the second loop, \<^verbatim>\<open>for country in profits_2020\<close>: both dictionaries are
  read at the key, then the score is stored.
\<close>

definition tt_group ::
  "profits \<Rightarrow> profits \<Rightarrow> string \<Rightarrow> (string \<times> real) list \<Rightarrow> error + (string \<times> real) list" where
  "tt_group profits_2020 profits_2021 country t_test_scores =
     and_then (lookup profits_2020 country) (\<lambda>profits_2020_values.
     and_then (lookup profits_2021 country) (\<lambda>profits_2021_values.
     and_then (t_statistic profits_2020_values profits_2021_values) (\<lambda>t_stat.
     Inr (AList.update country (py_round t_stat 4) t_test_scores))))"

definition calculate_t_test :: "builtins \<Rightarrow> string list \<Rightarrow> error + (string \<times> real) list" where
  "calculate_t_test B lines =
     and_then (tt_collect B lines) (\<lambda>st.
       for_each (tt_group (fst st) (snd st)) (map fst (fst st)) [])"

section \<open>The result combiner\<close>

text \<open>
  \<^verbatim>\<open>combine_t_test_and_minkowski(filename, p)\<close>: both engines read the same lines; the
  loop runs over the keys of the significance result.
\<close>

definition combine_step ::
  "(string \<times> real) list \<Rightarrow> (string \<times> real) list \<Rightarrow> string \<Rightarrow>
   (string \<times> real \<times> real) list \<Rightarrow> error + (string \<times> real \<times> real) list" where
  "combine_step t_test_results minkowski_results country combined_results =
     (if country \<in> set (map fst minkowski_results)
      then and_then (lookup t_test_results country) (\<lambda>t.
           and_then (lookup minkowski_results country) (\<lambda>d.
           Inr (AList.update country (t, d) combined_results)))
      else Inr combined_results)"

definition combine_t_test_and_minkowski ::
  "builtins \<Rightarrow> string list \<Rightarrow> real \<Rightarrow> error + (string \<times> real \<times> real) list" where
  "combine_t_test_and_minkowski B lines p =
     and_then (calculate_t_test B lines) (\<lambda>t_test_results.
     and_then (calculate_minkowski_distances B lines p) (\<lambda>minkowski_results.
     for_each (combine_step t_test_results minkowski_results) (map fst t_test_results) []))"

section \<open>The category ranking engine\<close>

text \<open>
  \<^verbatim>\<open>calculate_category_data(csv_data)\<close>. A stored entry is the Python list
  \<^verbatim>\<open>[employees, profit_change_percentage]\<close> that the second loop extends in place with
  \<^verbatim>\<open>data.append(rank)\<close>: the third component holds what has been appended so far.
\<close>

type_synonym entry = "int \<times> string \<times> nat list"
type_synonym org_data = "(string \<times> entry list) list"
type_synonym category_data = "(string \<times> org_data) list"

text \<open>
  The three dictionary statements that store an entry, lines 148 to 154.
\<close>

definition store_entry :: "category_data \<Rightarrow> string \<Rightarrow> string \<Rightarrow> entry \<Rightarrow> category_data" where
  "store_entry category_data category org_id e =
     (case map_of category_data category of
        None \<Rightarrow> AList.update category (append_item [] org_id e) category_data
      | Some orgs \<Rightarrow> AList.update category (append_item orgs org_id e) category_data)"

text \<open>The body of the \<^verbatim>\<open>try\<close>, lines 136 to 154.\<close>

definition cd_try :: "builtins \<Rightarrow> string list \<Rightarrow> category_data \<Rightarrow> error + category_data" where
  "cd_try B row category_data =
     and_then (item row 5) (\<lambda>c5.
       let category = py_lower B c5 in
       and_then (item row 0) (\<lambda>org_id.
       and_then (item row 6) (\<lambda>c6.
       and_then (to_int B c6) (\<lambda>employees.
       and_then (item row 8) (\<lambda>c8.
       and_then (to_float B c8) (\<lambda>profit_2020.
       and_then (item row 9) (\<lambda>c9.
       and_then (to_float B c9) (\<lambda>profit_2021.
         if employees \<le> 0 then Inr category_data
         else
           and_then (py_truediv (profit_2021 - profit_2020) profit_2020) (\<lambda>q.
             let profit_change_percentage = py_format4 B \<bar>q * 100\<bar> in
             Inr (store_entry category_data category org_id
                    (employees, profit_change_percentage, [])))))))))))"

text \<open>
  The \<^verbatim>\<open>try\<close> with its handler \<^verbatim>\<open>except (ValueError, IndexError): continue\<close>. Nothing is
  stored before the last statement of the body, so a caught exception leaves the
  dictionary as it was; any other exception leaves the function.
\<close>

definition cd_row :: "builtins \<Rightarrow> string list \<Rightarrow> category_data \<Rightarrow> error + category_data" where
  "cd_row B row category_data =
     (case cd_try B row category_data of
        Inl e \<Rightarrow> (if is_ValueError e \<or> e = IndexError then Inr category_data else Inl e)
      | Inr category_data' \<Rightarrow> Inr category_data')"

text \<open>The sort key of line 159: \<^verbatim>\<open>sum(float(data[0]) for data in x[1])\<close>.\<close>

definition size_score :: "string \<times> entry list \<Rightarrow> real" where
  "size_score x = sum_list (map (\<lambda>data. real_of_int (fst data)) (snd x))"

text \<open>
  \<^verbatim>\<open>sorted(xs, key=k, reverse=True)\<close>: Python's sort is stable, also with
  \<^verbatim>\<open>reverse=True\<close>, where items of equal key keep their order. That is the stable
  ascending sort by the negated key.
\<close>

definition sorted_reverse :: "('a \<Rightarrow> real) \<Rightarrow> 'a list \<Rightarrow> 'a list" where
  "sorted_reverse k xs = sort_key (\<lambda>x. - k x) xs"

text \<open>
  \<^verbatim>\<open>for data in org_info: data.append(rank)\<close>. \<open>org_info\<close> is the list object stored under
  \<open>org_id\<close> in the dictionary of the category, so the append shows there.
\<close>

definition append_rank :: "nat \<Rightarrow> string \<Rightarrow> org_data \<Rightarrow> org_data" where
  "append_rank rank org_id orgs =
     map (\<lambda>(k, org_info).
            if k = org_id
            then (k, map (\<lambda>(employees, pct, ranks). (employees, pct, ranks @ [rank])) org_info)
            else (k, org_info)) orgs"

text \<open>
  Lines 159 to 162 for one category: \<^verbatim>\<open>enumerate(sorted_orgs, start=1)\<close> pairs the
  sorted items with 1, 2, ...
\<close>

definition rank_category :: "org_data \<Rightarrow> org_data" where
  "rank_category orgs =
     (let sorted_orgs = sorted_reverse size_score orgs in
      foldl (\<lambda>d (rank, (org_id, org_info)). append_rank rank org_id d) orgs
        (zip [1..<Suc (length sorted_orgs)] sorted_orgs))"

definition cd_collect :: "builtins \<Rightarrow> string list list \<Rightarrow> error + category_data" where
  "cd_collect B csv_data = for_each (cd_row B) (tl csv_data) []"

definition calculate_category_data :: "builtins \<Rightarrow> string list list \<Rightarrow> error + category_data" where
  "calculate_category_data B csv_data =
     and_then (cd_collect B csv_data) (\<lambda>category_data.
       Inr (map (\<lambda>(category, orgs). (category, rank_category orgs)) category_data))"

section \<open>What the grouping loops build\<close>

text \<open>
  The definitions of this section are not translations of code: they say, in the words
  of the specification, what the dictionaries hold once a loop has run, and the
  theorems below compare the loops with them.

  \<open>items_of ts k\<close> are the values that a list of key-value pairs gives to the key \<open>k\<close>,
  in the order of the list; \<open>first_seen ks\<close> are the keys in the order in which each is
  first met; \<open>values_of d k\<close> is the list stored under \<open>k\<close>, empty for a key not in \<open>d\<close>.
\<close>

definition items_of :: "('k \<times> 'v) list \<Rightarrow> 'k \<Rightarrow> 'v list" where
  "items_of ts k = map snd (filter (\<lambda>t. fst t = k) ts)"

definition first_seen :: "'k list \<Rightarrow> 'k list" where
  "first_seen ks = rev (remdups (rev ks))"

definition values_of :: "('k \<times> 'v list) list \<Rightarrow> 'k \<Rightarrow> 'v list" where
  "values_of d k = (case map_of d k of None \<Rightarrow> [] | Some vs \<Rightarrow> vs)"

text \<open>
  \<open>grouped ts\<close> is the dictionary that the statements \<^verbatim>\<open>if k not in d: d[k] = []\<close> and
  \<^verbatim>\<open>d[k].append(v)\<close> build from the pairs \<open>ts\<close>, starting from the empty one.
  \<open>profit_step\<close> is the pair of appends of lines 89 and 90.
\<close>

definition grouped :: "('k \<times> 'v) list \<Rightarrow> ('k \<times> 'v list) list" where
  "grouped ts = foldl (\<lambda>d t. append_item d (fst t) (snd t)) [] ts"

definition profit_step ::
  "(string \<times> real list) list \<times> (string \<times> real list) list \<Rightarrow> string \<times> real \<times> real \<Rightarrow>
   (string \<times> real list) list \<times> (string \<times> real list) list" where
  "profit_step st t =
     (append_item (fst st) (fst t) (fst (snd t)), append_item (snd st) (fst t) (snd (snd t)))"

text \<open>
  The paired sample of the specification: a data row gives its country the pair of its
  two profits when both cells are there and both parse, and nothing otherwise.
  \<open>paired_sample B lines country\<close> lists the pairs of a country in row order.
\<close>

definition profit_pair ::
  "builtins \<Rightarrow> nat \<Rightarrow> nat \<Rightarrow> nat \<Rightarrow> string list \<Rightarrow> (string \<times> real \<times> real) option" where
  "profit_pair B ci i20 i21 row =
     (if ci < length row \<and> i20 < length row \<and> i21 < length row
      then (case py_float B (row ! i20) of
              None \<Rightarrow> None
            | Some a \<Rightarrow>
                (case py_float B (row ! i21) of
                   None \<Rightarrow> None
                 | Some b \<Rightarrow> Some (row ! ci, a, b)))
      else None)"

definition paired_rows :: "builtins \<Rightarrow> string list \<Rightarrow> (string \<times> real \<times> real) list" where
  "paired_rows B lines =
     (case lines of
        [] \<Rightarrow> []
      | first # data \<Rightarrow>
          (let header = py_cells B first in
           case index_of header ''country'' of Inl e \<Rightarrow> [] | Inr ci \<Rightarrow>
             (case index_of header ''profits in 2020(million)'' of Inl e \<Rightarrow> [] | Inr i20 \<Rightarrow>
                (case index_of header ''profits in 2021(million)'' of Inl e \<Rightarrow> [] | Inr i21 \<Rightarrow>
                   List.map_filter (\<lambda>line. profit_pair B ci i20 i21 (py_cells B line)) data))))"

definition paired_sample :: "builtins \<Rightarrow> string list \<Rightarrow> string \<Rightarrow> (real \<times> real) list" where
  "paired_sample B lines country = items_of (paired_rows B lines) country"

text \<open>
  The sample variance of the specification, with its denominator \<open>n - 1\<close>.
\<close>

definition sample_variance :: "real list \<Rightarrow> real" where
  "sample_variance xs =
     sum_list (map (\<lambda>x. (x - sum_list xs / real (length xs))\<^sup>2) xs) / (real (length xs) - 1)"

text \<open>
  The inner join of the specification, over the keys \<open>ks\<close> of the significance result:
  a key that the distance result has too is paired with its two values.
\<close>

definition joined ::
  "(string \<times> real) list \<Rightarrow> (string \<times> real) list \<Rightarrow> string list \<Rightarrow> (string \<times> real \<times> real) list" where
  "joined t m ks =
     map (\<lambda>k. (k, the (map_of t k), the (map_of m k))) (filter (\<lambda>k. k \<in> set (map fst m)) ks)"

text \<open>
  The rows of the category ranking engine, as the specification sorts them. A row is
  skipped when it is too short for the largest fixed position (9), when its employee
  count or one of its two profits does not parse, or when its employee count is not
  positive. A row that is not skipped and whose first profit is not zero survives: it
  gives its category and entity the entry \<open>surviving\<close> names.
\<close>

definition skipped_row :: "builtins \<Rightarrow> string list \<Rightarrow> bool" where
  "skipped_row B row =
     (length row < 10 \<or> py_int B (row ! 6) = None \<or> py_float B (row ! 8) = None \<or>
      py_float B (row ! 9) = None \<or> (\<exists>n. py_int B (row ! 6) = Some n \<and> n \<le> 0))"

definition surviving :: "builtins \<Rightarrow> string list \<Rightarrow> (string \<times> string \<times> entry) option" where
  "surviving B row =
     (if length row < 10 then None
      else (case py_int B (row ! 6) of
              None \<Rightarrow> None
            | Some employees \<Rightarrow>
                (case py_float B (row ! 8) of
                   None \<Rightarrow> None
                 | Some a \<Rightarrow>
                     (case py_float B (row ! 9) of
                        None \<Rightarrow> None
                      | Some b \<Rightarrow>
                          if employees \<le> 0 \<or> a = 0 then None
                          else Some (py_lower B (row ! 5), row ! 0,
                                     (employees, py_format4 B \<bar>(b - a) / a * 100\<bar>, []))))))"

definition surviving_rows :: "builtins \<Rightarrow> string list list \<Rightarrow> (string \<times> string \<times> entry) list" where
  "surviving_rows B csv_data = List.map_filter (surviving B) (tl csv_data)"

text \<open>\<open>nested ts\<close> is the dictionary of dictionaries that lines 148 to 154 build.\<close>

definition nested :: "(string \<times> string \<times> entry) list \<Rightarrow> category_data" where
  "nested ts = foldl (\<lambda>d t. store_entry d (fst t) (fst (snd t)) (snd (snd t))) [] ts"

text \<open>
  \<open>precedes xs a b\<close>: \<open>a\<close> stands before \<open>b\<close> in the list \<open>xs\<close>. For the items of a dictionary
  this is the insertion order of the specification.
\<close>

fun precedes :: "'a list \<Rightarrow> 'a \<Rightarrow> 'a \<Rightarrow> bool" where
  "precedes [] a b = False"
| "precedes (x # xs) a b = ((x = a \<and> b \<in> set xs) \<or> precedes xs a b)"

section \<open>An instance of the built-ins\<close>

text \<open>
  The built-ins on plain input: lines without surrounding blanks, decimal literals
  (an optional minus sign, digits, for a float also a point and digits) and ASCII
  letters. On these Python computes the same values.
\<close>

fun split_commas :: "string \<Rightarrow> string \<Rightarrow> string list" where
  "split_commas cell [] = [rev cell]"
| "split_commas cell (c # cs) =
     (if c = CHR '','' then rev cell # split_commas [] cs else split_commas (c # cell) cs)"

definition digit_of :: "char \<Rightarrow> nat option" where
  "digit_of c =
     (let n = (of_char c :: nat) in if 48 \<le> n \<and> n \<le> 57 then Some (n - 48) else None)"

fun digits_of :: "string \<Rightarrow> nat \<Rightarrow> nat option" where
  "digits_of [] acc = Some acc"
| "digits_of (c # cs) acc =
     (case digit_of c of None \<Rightarrow> None | Some d \<Rightarrow> digits_of cs (10 * acc + d))"

definition nat_literal :: "string \<Rightarrow> nat option" where
  "nat_literal s = (if s = [] then None else digits_of s 0)"

definition int_literal :: "string \<Rightarrow> int option" where
  "int_literal s =
     (case s of
        [] \<Rightarrow> None
      | c # cs \<Rightarrow>
          if c = CHR ''-'' then map_option (\<lambda>n. - int n) (nat_literal cs)
          else map_option int (nat_literal s))"

definition unsigned_float_literal :: "string \<Rightarrow> real option" where
  "unsigned_float_literal s =
     (let whole = takeWhile (\<lambda>c. c \<noteq> CHR ''.'') s;
          rest = dropWhile (\<lambda>c. c \<noteq> CHR ''.'') s in
      case rest of
        [] \<Rightarrow> map_option real (nat_literal whole)
      | _ # decimals \<Rightarrow>
          (case nat_literal whole of
             None \<Rightarrow> None
           | Some a \<Rightarrow>
               (case nat_literal decimals of
                  None \<Rightarrow> None
                | Some b \<Rightarrow> Some (real a + real b / 10 ^ length decimals))))"

definition float_literal :: "string \<Rightarrow> real option" where
  "float_literal s =
     (case s of
        [] \<Rightarrow> None
      | c # cs \<Rightarrow>
          if c = CHR ''-'' then map_option uminus (unsigned_float_literal cs)
          else unsigned_float_literal s)"

definition ascii_lower :: "string \<Rightarrow> string" where
  "ascii_lower s =
     map (\<lambda>c. let n = (of_char c :: nat) in if 65 \<le> n \<and> n \<le> 90 then char_of (n + 32) else c) s"

fun show_digits :: "nat \<Rightarrow> nat \<Rightarrow> string" where
  "show_digits 0 n = []"
| "show_digits (Suc k) n = show_digits k (n div 10) @ [char_of (48 + n mod 10)]"

fun count_digits :: "nat \<Rightarrow> nat \<Rightarrow> nat" where
  "count_digits 0 n = 1"
| "count_digits (Suc fuel) n = (if n < 10 then 1 else Suc (count_digits fuel (n div 10)))"

definition format4 :: "real \<Rightarrow> string" where
  "format4 x =
     (let m = nat \<lfloor>py_round \<bar>x\<bar> 4 * 10000\<rfloor>;
          whole = m div 10000 in
      (if x < 0 then ''-'' else []) @ show_digits (count_digits whole whole) whole
        @ ''.'' @ show_digits 4 (m mod 10000))"

definition plain_builtins :: builtins where
  "plain_builtins =
     \<lparr> py_cells = split_commas [], py_int = int_literal, py_float = float_literal,
       py_lower = ascii_lower, py_format4 = format4 \<rparr>"

section \<open>Properties\<close>

lemma and_then_Inr_iff:
  "and_then m rest = Inr y \<longleftrightarrow> (\<exists>x. m = Inr x \<and> rest x = Inr y)"
  by (cases m) auto

lemma for_each_append:
  "for_each body (xs @ ys) s = and_then (for_each body xs s) (for_each body ys)"
proof (induction xs arbitrary: s)
  case Nil
  show ?case by simp
next
  case (Cons x xs)
  show ?case by (cases "body x s") (simp_all add: Cons.IH)
qed

lemma for_each_invariant:
  assumes "for_each body xs s = Inr t" and "P s"
    and "\<And>x s s'. x \<in> set xs \<Longrightarrow> P s \<Longrightarrow> body x s = Inr s' \<Longrightarrow> P s'"
  shows "P t"
  using assms
proof (induction xs arbitrary: s)
  case Nil
  then show ?case by simp
next
  case (Cons x xs)
  from Cons.prems(1) obtain s' where b: "body x s = Inr s'" and r: "for_each body xs s' = Inr t"
    by (auto simp: and_then_Inr_iff)
  have "P s'" using Cons.prems(3)[OF _ Cons.prems(2) b] by simp
  with r Cons.IH Cons.prems(3) show ?case by (metis list.set_intros(2))
qed

lemma for_each_error:
  assumes "for_each body xs s = Inl e"
  shows "\<exists>x \<in> set xs. \<exists>s'. body x s' = Inl e"
  using assms
proof (induction xs arbitrary: s)
  case Nil
  then show ?case by simp
next
  case (Cons x xs)
  show ?case
  proof (cases "body x s")
    case (Inl e')
    with Cons.prems show ?thesis by auto
  next
    case (Inr s')
    with Cons.prems have "for_each body xs s' = Inl e" by simp
    from Cons.IH[OF this] show ?thesis by auto
  qed
qed

text \<open>The definitions that evaluate the built-ins of \<open>plain_builtins\<close> on a literal.\<close>

lemmas plain_eval =
  plain_builtins_def int_literal_def float_literal_def unsigned_float_literal_def
  nat_literal_def digit_of_def to_int_def to_float_def item_def append_item_def

subsection \<open>Grouping\<close>

lemma append_item_keys:
  "map fst (append_item d k v) = (if k \<in> set (map fst d) then map fst d else map fst d @ [k])"
  by (simp add: append_item_def update_keys split: option.splits)

lemma append_item_map_of: "map_of (append_item d k v) = (map_of d)(k \<mapsto> values_of d k @ [v])"
  by (simp add: append_item_def values_of_def update_conv' split: option.splits)

lemma append_item_values:
  "values_of (append_item d k v) k' = (if k' = k then values_of d k @ [v] else values_of d k')"
  by (simp add: values_of_def append_item_map_of)

lemma grouped_Nil: "grouped [] = []"
  by (simp add: grouped_def)

lemma grouped_snoc: "grouped (ts @ [t]) = append_item (grouped ts) (fst t) (snd t)"
  by (simp add: grouped_def)

lemma first_seen_snoc:
  "first_seen (ks @ [k]) = (if k \<in> set (first_seen ks) then first_seen ks else first_seen ks @ [k])"
  by (simp add: first_seen_def)

lemma set_first_seen: "set (first_seen ks) = set ks"
  by (simp add: first_seen_def)

lemma distinct_first_seen: "distinct (first_seen ks)"
  by (simp add: first_seen_def)

lemma grouped_keys: "map fst (grouped ts) = first_seen (map fst ts)"
proof (induction ts rule: rev_induct)
  case Nil
  show ?case by (simp add: grouped_Nil first_seen_def)
next
  case (snoc t ts)
  then show ?case by (simp add: grouped_snoc append_item_keys first_seen_snoc)
qed

lemma grouped_distinct: "distinct (map fst (grouped ts))"
  by (simp add: grouped_keys distinct_first_seen)

lemma grouped_values: "values_of (grouped ts) k = items_of ts k"
proof (induction ts arbitrary: k rule: rev_induct)
  case Nil
  show ?case by (simp add: grouped_Nil values_of_def items_of_def)
next
  case (snoc t ts)
  then show ?case by (simp add: grouped_snoc append_item_values items_of_def)
qed

lemma items_of_empty_iff: "items_of ts k = [] \<longleftrightarrow> k \<notin> set (map fst ts)"
  by (auto simp: items_of_def filter_empty_conv)

lemma grouped_map_of:
  "map_of (grouped ts) k = (if k \<in> set (map fst ts) then Some (items_of ts k) else None)"
proof (cases "k \<in> set (map fst ts)")
  case False
  then have "k \<notin> fst ` set (grouped ts)"
    using grouped_keys[of ts] set_first_seen[of "map fst ts"] by (metis set_map)
  then show ?thesis using False by (simp add: map_of_eq_None_iff)
next
  case True
  then have "k \<in> fst ` set (grouped ts)"
    using grouped_keys[of ts] set_first_seen[of "map fst ts"] by (metis set_map)
  then obtain vs where vs: "map_of (grouped ts) k = Some vs"
    by (metis map_of_eq_None_iff not_Some_eq)
  then have "values_of (grouped ts) k = vs" by (simp add: values_of_def)
  with vs True show ?thesis by (simp add: grouped_values)
qed

lemma grouped_lookup:
  "k \<in> set (map fst ts) \<Longrightarrow> lookup (grouped ts) k = Inr (items_of ts k)"
  by (simp add: lookup_def grouped_map_of)

subsection \<open>The distance engine\<close>

lemma py_pow_not_mismatch: "py_pow x y \<noteq> Inl DimensionMismatch"
  by (simp add: py_pow_def)

lemma minkowski_sum_not_mismatch: "minkowski_sum x1 x2 p is d \<noteq> Inl DimensionMismatch"
proof (induction "is" arbitrary: d)
  case Nil
  show ?case by simp
next
  case (Cons i "is")
  show ?case
    using Cons.IH py_pow_not_mismatch[of "\<bar>x1 ! i - x2 ! i\<bar>" p]
    by (cases "py_pow \<bar>x1 ! i - x2 ! i\<bar> p") simp_all
qed

text \<open>The error of the first statement is raised exactly when the lengths differ.\<close>

lemma minkowski_distance_mismatch_iff:
  "minkowski_distance x1 x2 p = Inl DimensionMismatch \<longleftrightarrow> length x1 \<noteq> length x2"
proof (cases "length x1 = length x2")
  case False
  then show ?thesis by (simp add: minkowski_distance_def)
next
  case True
  have "and_then (minkowski_sum x1 x2 p [0..<length x1] 0)
          (\<lambda>distance. and_then (py_truediv 1 p) (\<lambda>q. py_pow distance q)) \<noteq> Inl DimensionMismatch"
    using minkowski_sum_not_mismatch[of x1 x2 p "[0..<length x1]" 0]
    by (cases "minkowski_sum x1 x2 p [0..<length x1] 0")
       (auto simp: py_truediv_def py_pow_not_mismatch)
  with True show ?thesis by (simp add: minkowski_distance_def)
qed

text \<open>
  Claim C2. For sequences \<open>x1\<close>, \<open>x2\<close> of different lengths and any \<open>p\<close>,
  \<^verbatim>\<open>minkowski_distance(x1, x2, p)\<close> raises the dimension-mismatch error, which is a
  \<^verbatim>\<open>ValueError\<close>, and returns no result.
\<close>

theorem minkowski_distance_raises_on_length_mismatch:
  assumes "length x1 \<noteq> length x2"
  shows "minkowski_distance x1 x2 p = Inl DimensionMismatch \<and> is_ValueError DimensionMismatch"
  using assms by (simp add: minkowski_distance_def is_ValueError_def)

theorem minkowski_distance_raises_on_length_mismatch_witness:
  "length [1, 2 :: real] \<noteq> length [3 :: real] \<and>
   minkowski_distance [1, 2] [3] 2 = Inl DimensionMismatch \<and> is_ValueError DimensionMismatch"
  using minkowski_distance_raises_on_length_mismatch[of "[1, 2]" "[3]" 2] by simp

lemma md_group_not_mismatch: "md_group p entry acc \<noteq> Inl DimensionMismatch"
proof -
  let ?x1 = "map (\<lambda>point. real_of_int (fst point)) (snd entry)"
  let ?x2 = "map (\<lambda>point. snd point) (snd entry)"
  have "minkowski_distance ?x1 ?x2 p \<noteq> Inl DimensionMismatch"
    by (simp add: minkowski_distance_mismatch_iff)
  then show ?thesis
    by (cases "minkowski_distance ?x1 ?x2 p") (simp_all add: md_group_def Let_def)
qed

lemma md_collect_example:
  "md_collect plain_builtins
     [''country,number of employees,median Salary'', ''X,10,100.0'', ''X,20,200.0'']
   = Inr [(''X'', [(10, 100), (20, 200)])]"
  by (simp add: md_collect_def md_row_def plain_eval)

text \<open>
  Claim C10. Whenever the parsing of \<^verbatim>\<open>calculate_minkowski_distances\<close> succeeds, the two
  vectors it passes to \<^verbatim>\<open>minkowski_distance\<close> for a group are projections of the one list
  of points of that group: they have the same length, the call does not raise the
  dimension-mismatch error, and neither does \<^verbatim>\<open>calculate_minkowski_distances\<close>.
\<close>

theorem calculate_minkowski_distances_never_mismatch:
  assumes "md_collect B lines = Inr country_data"
  shows "(\<forall>entry \<in> set country_data.
            length (map (\<lambda>point. real_of_int (fst point)) (snd entry)) = length (map snd (snd entry)) \<and>
            minkowski_distance (map (\<lambda>point. real_of_int (fst point)) (snd entry))
              (map snd (snd entry)) p \<noteq> Inl DimensionMismatch) \<and>
         calculate_minkowski_distances B lines p \<noteq> Inl DimensionMismatch"
proof -
  have "for_each (md_group p) country_data [] \<noteq> Inl DimensionMismatch"
    using for_each_error[of "md_group p" country_data "[]" DimensionMismatch] md_group_not_mismatch
    by blast
  then have "calculate_minkowski_distances B lines p \<noteq> Inl DimensionMismatch"
    by (simp add: calculate_minkowski_distances_def assms)
  then show ?thesis by (simp add: minkowski_distance_mismatch_iff)
qed

theorem calculate_minkowski_distances_never_mismatch_witness:
  "md_collect plain_builtins
     [''country,number of employees,median Salary'', ''X,10,100.0'', ''X,20,200.0'']
     = Inr [(''X'', [(10, 100), (20, 200)])] \<and>
   minkowski_distance [10, 20] [100, 200] 3 \<noteq> Inl DimensionMismatch \<and>
   calculate_minkowski_distances plain_builtins
     [''country,number of employees,median Salary'', ''X,10,100.0'', ''X,20,200.0''] 3
     \<noteq> Inl DimensionMismatch"
  using calculate_minkowski_distances_never_mismatch[OF md_collect_example, of 3]
    md_collect_example
  by simp

subsection \<open>The significance engine\<close>

lemma tt_row_Inr:
  assumes "tt_row B header i20 i21 line st = Inr st'"
  shows "\<exists>ci. index_of header ''country'' = Inr ci \<and>
           st' = (case profit_pair B ci i20 i21 (py_cells B line) of
                    None \<Rightarrow> st | Some t \<Rightarrow> profit_step st t)"
proof -
  from assms obtain ci where ci: "index_of header ''country'' = Inr ci"
    by (cases "index_of header ''country''") (simp_all add: tt_row_def Let_def)
  have "st' = (case profit_pair B ci i20 i21 (py_cells B line) of
                 None \<Rightarrow> st | Some t \<Rightarrow> profit_step st t)"
    using assms ci
    by (auto simp: tt_row_def Let_def item_def profit_pair_def profit_step_def
             split: if_splits option.splits)
  with ci show ?thesis by blast
qed

lemma tt_loop_Inr:
  assumes "for_each (tt_row B header i20 i21) ls st = Inr st'"
    and "ls \<noteq> [] \<longrightarrow> index_of header ''country'' = Inr ci"
  shows "st' = foldl profit_step st
                 (List.map_filter (\<lambda>line. profit_pair B ci i20 i21 (py_cells B line)) ls)"
  using assms
proof (induction ls arbitrary: st)
  case Nil
  then show ?case by simp
next
  case (Cons l ls)
  from Cons.prems(1) obtain s1 where s1: "tt_row B header i20 i21 l st = Inr s1"
    and r: "for_each (tt_row B header i20 i21) ls s1 = Inr st'"
    by (auto simp: and_then_Inr_iff)
  from Cons.prems(2) have ci: "index_of header ''country'' = Inr ci" by simp
  from tt_row_Inr[OF s1] ci
  have e: "s1 = (case profit_pair B ci i20 i21 (py_cells B l) of
                  None \<Rightarrow> st | Some t \<Rightarrow> profit_step st t)" by simp
  have "st' = foldl profit_step s1
                 (List.map_filter (\<lambda>line. profit_pair B ci i20 i21 (py_cells B line)) ls)"
    using Cons.IH[OF r] ci by simp
  with e show ?case by (simp split: option.splits)
qed

lemma foldl_profit_step:
  "foldl profit_step ([], []) ts =
     (grouped (map (\<lambda>t. (fst t, fst (snd t))) ts), grouped (map (\<lambda>t. (fst t, snd (snd t))) ts))"
proof (induction ts rule: rev_induct)
  case Nil
  show ?case by (simp add: grouped_Nil)
next
  case (snoc t ts)
  then show ?case by (simp add: grouped_snoc profit_step_def)
qed

lemma tt_collect_grouped:
  assumes "tt_collect B lines = Inr st"
  shows "st = (grouped (map (\<lambda>t. (fst t, fst (snd t))) (paired_rows B lines)),
               grouped (map (\<lambda>t. (fst t, snd (snd t))) (paired_rows B lines)))"
proof -
  from assms obtain first data where lines: "lines = first # data"
    by (cases lines) (simp_all add: tt_collect_def item_def)
  let ?header = "py_cells B first"
  from assms lines obtain i20 where i20: "index_of ?header ''profits in 2020(million)'' = Inr i20"
    by (cases "index_of ?header ''profits in 2020(million)''")
       (simp_all add: tt_collect_def item_def Let_def)
  from assms lines i20 obtain i21 where i21: "index_of ?header ''profits in 2021(million)'' = Inr i21"
    by (cases "index_of ?header ''profits in 2021(million)''")
       (simp_all add: tt_collect_def item_def Let_def)
  from assms lines i20 i21
  have loop: "for_each (tt_row B ?header i20 i21) data ([], []) = Inr st"
    by (simp add: tt_collect_def item_def Let_def)
  show ?thesis
  proof (cases data)
    case Nil
    with loop lines show ?thesis
      by (simp add: paired_rows_def Let_def grouped_Nil split: sum.splits)
  next
    case (Cons l ls)
    with loop obtain s1 where "tt_row B ?header i20 i21 l ([], []) = Inr s1"
      by (auto simp: and_then_Inr_iff)
    from tt_row_Inr[OF this] obtain ci where ci: "index_of ?header ''country'' = Inr ci" by blast
    from tt_loop_Inr[OF loop, of ci] ci
    have "st = foldl profit_step ([], [])
                 (List.map_filter (\<lambda>line. profit_pair B ci i20 i21 (py_cells B line)) data)"
      by simp
    moreover have "paired_rows B lines =
        List.map_filter (\<lambda>line. profit_pair B ci i20 i21 (py_cells B line)) data"
      using lines ci i20 i21 by (simp add: paired_rows_def Let_def)
    ultimately show ?thesis by (simp add: foldl_profit_step)
  qed
qed

lemma items_of_map_fst:
  "items_of (map (\<lambda>t. (fst t, fst (snd t))) ts) k = map fst (items_of ts k)"
  by (induction ts) (simp_all add: items_of_def)

lemma items_of_map_snd:
  "items_of (map (\<lambda>t. (fst t, snd (snd t))) ts) k = map snd (items_of ts k)"
  by (induction ts) (simp_all add: items_of_def)

text \<open>
  Claim C4. In \<^verbatim>\<open>calculate_t_test\<close> a row is left out of the paired sample of its group
  when either of its two profit cells fails to parse, and both values are left out
  together: once the first loop is through, the two dictionaries have the same keys,
  a key is there exactly when its paired sample is not empty, and under every key
  the period-A list and the period-B list are the first and the second components of
  the same list of row pairs, so they have the same length and position \<open>i\<close> of both
  comes from the same row.
\<close>

theorem calculate_t_test_paired_sample:
  assumes "tt_collect B lines = Inr (profits_2020, profits_2021)"
  shows "map fst profits_2020 = map fst profits_2021 \<and>
         distinct (map fst profits_2020) \<and>
         (\<forall>country. country \<in> set (map fst profits_2020) \<longleftrightarrow> paired_sample B lines country \<noteq> []) \<and>
         (\<forall>country \<in> set (map fst profits_2020).
            lookup profits_2020 country = Inr (map fst (paired_sample B lines country)) \<and>
            lookup profits_2021 country = Inr (map snd (paired_sample B lines country)) \<and>
            length (values_of profits_2020 country) = length (values_of profits_2021 country))"
proof -
  let ?ts = "paired_rows B lines"
  let ?a = "map (\<lambda>t. (fst t, fst (snd t))) ?ts" and ?b = "map (\<lambda>t. (fst t, snd (snd t))) ?ts"
  from tt_collect_grouped[OF assms]
  have p20: "profits_2020 = grouped ?a" and p21: "profits_2021 = grouped ?b" by simp_all
  have ka: "map fst ?a = map fst ?ts" and kb: "map fst ?b = map fst ?ts" by (simp_all add: comp_def)
  have keys: "map fst profits_2020 = map fst profits_2021"
    unfolding p20 p21 grouped_keys ka kb by (rule refl)
  have dist: "distinct (map fst profits_2020)" by (simp add: p20 grouped_distinct)
  have ks: "set (map fst profits_2020) = set (map fst ?ts)"
    unfolding p20 grouped_keys ka by (rule set_first_seen)
  have mem: "\<forall>country. country \<in> set (map fst profits_2020) \<longleftrightarrow> paired_sample B lines country \<noteq> []"
    unfolding ks paired_sample_def using items_of_empty_iff[of ?ts] by blast
  have vals: "\<forall>country \<in> set (map fst profits_2020).
            lookup profits_2020 country = Inr (map fst (paired_sample B lines country)) \<and>
            lookup profits_2021 country = Inr (map snd (paired_sample B lines country)) \<and>
            length (values_of profits_2020 country) = length (values_of profits_2021 country)"
  proof
    fix country assume "country \<in> set (map fst profits_2020)"
    then have c: "country \<in> set (map fst ?ts)" using ks by simp
    have "lookup profits_2020 country = Inr (map fst (paired_sample B lines country))"
      unfolding p20 paired_sample_def using grouped_lookup[of country ?a] c ka
      by (simp add: items_of_map_fst)
    moreover have "lookup profits_2021 country = Inr (map snd (paired_sample B lines country))"
      unfolding p21 paired_sample_def using grouped_lookup[of country ?b] c kb
      by (simp add: items_of_map_snd)
    moreover have "length (values_of profits_2020 country) = length (values_of profits_2021 country)"
      by (simp add: p20 p21 grouped_values items_of_map_fst items_of_map_snd)
    ultimately show "lookup profits_2020 country = Inr (map fst (paired_sample B lines country)) \<and>
            lookup profits_2021 country = Inr (map snd (paired_sample B lines country)) \<and>
            length (values_of profits_2020 country) = length (values_of profits_2021 country)"
      by simp
  qed
  from keys dist mem vals show ?thesis by blast
qed

lemma tt_collect_example:
  "tt_collect plain_builtins
     [''country,profits in 2020(million),profits in 2021(million)'',
      ''X,1,1'', ''X,3,1'', ''Y,a,2'', ''Z,5,6'']
   = Inr ([(''X'', [1, 3]), (''Z'', [5])], [(''X'', [1, 1]), (''Z'', [6])])"
  by (simp add: tt_collect_def tt_row_def plain_eval)

lemma paired_sample_example:
  "paired_sample plain_builtins
     [''country,profits in 2020(million),profits in 2021(million)'',
      ''X,1,1'', ''X,3,1'', ''Y,a,2'', ''Z,5,6''] ''X''
   = [(1, 1), (3, 1)]"
  by (simp add: paired_sample_def paired_rows_def profit_pair_def items_of_def plain_eval)

theorem calculate_t_test_paired_sample_witness:
  "tt_collect plain_builtins
     [''country,profits in 2020(million),profits in 2021(million)'',
      ''X,1,1'', ''X,3,1'', ''Y,a,2'', ''Z,5,6'']
     = Inr ([(''X'', [1, 3]), (''Z'', [5])], [(''X'', [1, 1]), (''Z'', [6])]) \<and>
   map fst [(''X'', [1, 3 :: real]), (''Z'', [5])] = map fst [(''X'', [1, 1 :: real]), (''Z'', [6])] \<and>
   lookup [(''X'', [1, 3 :: real]), (''Z'', [5])] ''X'' = Inr (map fst [(1 :: real, 1 :: real), (3, 1)]) \<and>
   lookup [(''X'', [1, 1 :: real]), (''Z'', [6])] ''X'' = Inr (map snd [(1 :: real, 1 :: real), (3, 1)])"
  using calculate_t_test_paired_sample[OF tt_collect_example] tt_collect_example
    paired_sample_example
  by simp

lemma py_pow_two: "py_pow x 2 = Inr (x\<^sup>2)"
proof -
  have "\<lfloor>2::real\<rfloor> = 2" by simp
  then show ?thesis by (simp add: py_pow_def)
qed

lemma py_pow_half: "0 \<le> x \<Longrightarrow> py_pow x (1 / 2) = Inr (sqrt x)"
  by (simp add: py_pow_def powr_half_sqrt)

lemma comprehension_total:
  "(\<And>x. x \<in> set xs \<Longrightarrow> f x = Inr (g x)) \<Longrightarrow> comprehension f xs = Inr (map g xs)"
  by (induction xs) simp_all

lemma comprehension_Inr: "comprehension (\<lambda>x. Inr (g x)) xs = Inr (map g xs)"
  by (rule comprehension_total) simp

lemma comprehension_squares:
  "comprehension (\<lambda>x. py_pow (x - m) 2) xs = Inr (map (\<lambda>x. (x - m)\<^sup>2) xs)"
  by (rule comprehension_total) (simp add: py_pow_two)

lemma sum_list_squares_nonneg: "0 \<le> sum_list (map (\<lambda>x. (x - m)\<^sup>2) xs)" for m :: real
  by (induction xs) simp_all

lemma sample_variance_nonneg: "2 \<le> length xs \<Longrightarrow> 0 \<le> sample_variance xs"
  unfolding sample_variance_def
  by (intro divide_nonneg_nonneg sum_list_squares_nonneg) simp

lemma t_statistic_closed:
  "t_statistic v20 v21 =
     (if length v20 < 2 \<or> length v21 < 2 \<or>
         sqrt (sample_variance v20 / real (length v20) + sample_variance v21 / real (length v21)) = 0
      then Inl ZeroDivisionError
      else Inr ((sum_list v20 / real (length v20) - sum_list v21 / real (length v21)) /
                sqrt (sample_variance v20 / real (length v20) + sample_variance v21 / real (length v21))))"
proof -
  consider "length v20 = 0" | "length v20 \<noteq> 0" "length v21 = 0"
    | "length v20 = 1" "length v21 \<noteq> 0"
    | "2 \<le> length v20" "length v21 = 1" | "2 \<le> length v20" "2 \<le> length v21"
    by linarith
  then show ?thesis
  proof cases
    case 1
    then show ?thesis by (simp add: t_statistic_def py_truediv_def)
  next
    case 2
    then show ?thesis by (simp add: t_statistic_def py_truediv_def)
  next
    case 3
    then show ?thesis
      by (simp add: t_statistic_def py_truediv_def comprehension_squares)
  next
    case 4
    have v: "0 \<le> sample_variance v20" using 4 by (simp add: sample_variance_nonneg)
    have n: "real (length v20) - 1 \<noteq> 0" using 4 by simp
    from 4 v n show ?thesis
      by (simp add: t_statistic_def py_truediv_def comprehension_squares py_pow_half
            sample_variance_def[symmetric])
  next
    case 5
    have v1: "0 \<le> sample_variance v20" and v2: "0 \<le> sample_variance v21"
      using 5 by (simp_all add: sample_variance_nonneg)
    have n1: "real (length v20) - 1 \<noteq> 0" and n2: "real (length v21) - 1 \<noteq> 0"
      and m1: "length v20 \<noteq> 0" and m2: "length v21 \<noteq> 0"
      and l1: "\<not> length v20 < 2" and l2: "\<not> length v21 < 2"
      using 5 by auto
    have sum: "0 \<le> sample_variance v20 / real (length v20) + sample_variance v21 / real (length v21)"
      using v1 v2 by simp
    have s1: "of_int (int (length v20) - 1) = real (length v20) - 1"
      and s2: "of_int (int (length v21) - 1) = real (length v21) - 1" by simp_all
    have step1: "py_truediv (sum_list (map (\<lambda>x. (x - sum_list v20 / real (length v20))\<^sup>2) v20))
             (real (length v20) - 1) = Inr (sample_variance v20)"
      using n1 by (simp add: py_truediv_def sample_variance_def)
    have step2: "py_truediv (sum_list (map (\<lambda>x. (x - sum_list v21 / real (length v21))\<^sup>2) v21))
             (real (length v21) - 1) = Inr (sample_variance v21)"
      using n2 by (simp add: py_truediv_def sample_variance_def)
    show ?thesis
      unfolding t_statistic_def Let_def
      using m1 m2 l1 l2 v1 v2 sum
      by (simp add: py_truediv_def[of _ "real (length v20)"] py_truediv_def[of _ "real (length v21)"]
            py_truediv_def[of _ "sqrt _"]
            comprehension_Inr step1 step2 py_pow_half py_pow_two)
  qed
qed



lemma for_each_fails:
  assumes "x \<in> set xs" and "\<And>s. body x s = Inl e"
    and "\<And>y s e'. y \<in> set xs \<Longrightarrow> body y s = Inl e' \<Longrightarrow> e' = e"
  shows "for_each body xs s = Inl e"
  using assms
proof (induction xs arbitrary: s)
  case Nil
  then show ?case by simp
next
  case (Cons y ys)
  show ?case
  proof (cases "body y s")
    case (Inl e')
    with Cons.prems(3)[of y s e'] show ?thesis by simp
  next
    case (Inr s')
    with Cons.prems(2) have "y \<noteq> x" by auto
    with Cons.prems(1) have "x \<in> set ys" by simp
    from Cons.IH[OF this Cons.prems(2)] Cons.prems(3) have "for_each body ys s' = Inl e"
      by (metis list.set_intros(2))
    with Inr show ?thesis by simp
  qed
qed


lemma lookup_in_keys: "k \<in> set (map fst d) \<Longrightarrow> \<exists>v. lookup d k = Inr v"
  by (cases "map_of d k") (auto simp: lookup_def map_of_eq_None_iff)




subsection \<open>The result combiner\<close>

lemma update_new_key: "k \<notin> set (map fst al) \<Longrightarrow> AList.update k v al = al @ [(k, v)]"
  by (induction al) auto

lemma lookup_Inr_iff: "lookup d k = Inr v \<longleftrightarrow> map_of d k = Some v"
  by (cases "map_of d k") (simp_all add: lookup_def)

lemma lookup_Inr_key: "lookup d k = Inr v \<Longrightarrow> k \<in> set (map fst d)"
  by (metis lookup_Inr_iff map_of_SomeD set_map image_eqI fst_conv)

lemma tt_group_keys_distinct:
  assumes "for_each (tt_group p20 p21) ks acc = Inr t" and "distinct (map fst acc)"
  shows "distinct (map fst t)"
proof (rule for_each_invariant[OF assms(1), where P = "\<lambda>d. distinct (map fst d)"])
  show "distinct (map fst acc)" by (rule assms(2))
next
  fix k s s'
  assume "distinct (map fst s)" and "tt_group p20 p21 k s = Inr s'"
  then show "distinct (map fst s')"
    by (auto simp: tt_group_def and_then_Inr_iff distinct_update)
qed

lemma calculate_t_test_distinct:
  "calculate_t_test B lines = Inr t \<Longrightarrow> distinct (map fst t)"
  by (auto simp: calculate_t_test_def and_then_Inr_iff intro: tt_group_keys_distinct)

lemma joined_Cons_in:
  "k \<in> set (map fst m) \<Longrightarrow>
   joined t m (k # ks) = (k, the (map_of t k), the (map_of m k)) # joined t m ks"
  by (simp add: joined_def)

lemma joined_Cons_out: "k \<notin> set (map fst m) \<Longrightarrow> joined t m (k # ks) = joined t m ks"
  by (simp add: joined_def)

lemma combine_loop:
  assumes "distinct ks" and "set ks \<subseteq> set (map fst t)" and "set ks \<inter> set (map fst acc) = {}"
  shows "for_each (combine_step t m) ks acc = Inr (acc @ joined t m ks)"
  using assms
proof (induction ks arbitrary: acc)
  case Nil
  show ?case by (simp add: joined_def)
next
  case (Cons k ks)
  have dks: "distinct ks" and kks: "k \<notin> set ks" using Cons.prems(1) by simp_all
  have sub: "set ks \<subseteq> set (map fst t)" and kt: "k \<in> set (map fst t)"
    using Cons.prems(2) by simp_all
  have fresh: "k \<notin> set (map fst acc)" and rest: "set ks \<inter> set (map fst acc) = {}"
    using Cons.prems(3) by simp_all
  from lookup_in_keys[OF kt] obtain tv where tv: "lookup t k = Inr tv" by blast
  then have tv': "map_of t k = Some tv" by (simp add: lookup_Inr_iff)
  show ?case
  proof (cases "k \<in> set (map fst m)")
    case False
    then have step: "combine_step t m k acc = Inr acc" by (simp add: combine_step_def)
    have "for_each (combine_step t m) ks acc = Inr (acc @ joined t m ks)"
      using dks sub rest by (rule Cons.IH)
    with step show ?thesis by (simp add: joined_Cons_out[OF False])
  next
    case True
    from lookup_in_keys[OF True] obtain d where d: "lookup m k = Inr d" by blast
    then have d': "map_of m k = Some d" by (simp add: lookup_Inr_iff)
    have upd: "AList.update k (tv, d) acc = acc @ [(k, tv, d)]"
      using fresh by (rule update_new_key)
    have step: "combine_step t m k acc = Inr (acc @ [(k, tv, d)])"
      using True tv d upd by (simp add: combine_step_def)
    have rest': "set ks \<inter> set (map fst (acc @ [(k, tv, d)])) = {}"
      using rest kks by simp
    have "for_each (combine_step t m) ks (acc @ [(k, tv, d)])
        = Inr ((acc @ [(k, tv, d)]) @ joined t m ks)"
      using dks sub rest' by (rule Cons.IH)
    with step show ?thesis by (simp add: joined_Cons_in[OF True] tv' d')
  qed
qed

lemma joined_keys: "map fst (joined t m ks) = filter (\<lambda>k. k \<in> set (map fst m)) ks"
  by (simp add: joined_def comp_def)

lemma joined_map_of:
  assumes "k \<in> set ks" and "map_of t k = Some tv" and "map_of m k = Some d"
  shows "map_of (joined t m ks) k = Some (tv, d)"
proof -
  have "k \<in> set (map fst m)" using assms(3) by (metis lookup_Inr_iff lookup_Inr_key)
  with assms(1) have "k \<in> set (filter (\<lambda>k. k \<in> set (map fst m)) ks)" by simp
  then have "map_of (map (\<lambda>k. (k, the (map_of t k), the (map_of m k)))
                 (filter (\<lambda>k. k \<in> set (map fst m)) ks)) k
             = Some (the (map_of t k), the (map_of m k))"
    by (simp add: map_of_map_restrict)
  with assms(2,3) show ?thesis by (simp add: joined_def)
qed

text \<open>
  Claim C5. When both engines succeed, \<^verbatim>\<open>combine_t_test_and_minkowski\<close> succeeds; the keys
  of its result are exactly the keys the two results share, in the order of the keys of
  the significance result; a shared key maps to the pair of the t-statistic and the
  distance; a key of one side only is dropped without an error.
\<close>

theorem combine_is_inner_join:
  assumes "calculate_t_test B lines = Inr t"
    and "calculate_minkowski_distances B lines p = Inr m"
  shows "\<exists>c. combine_t_test_and_minkowski B lines p = Inr c \<and>
           set (map fst c) = set (map fst t) \<inter> set (map fst m) \<and>
           map fst c = filter (\<lambda>k. k \<in> set (map fst m)) (map fst t) \<and>
           (\<forall>k tv d. lookup t k = Inr tv \<and> lookup m k = Inr d \<longrightarrow> lookup c k = Inr (tv, d))"
proof -
  let ?c = "joined t m (map fst t)"
  have dist: "distinct (map fst t)" using assms(1) by (rule calculate_t_test_distinct)
  have "for_each (combine_step t m) (map fst t) [] = Inr ([] @ ?c)"
    using dist by (intro combine_loop) simp_all
  then have run: "combine_t_test_and_minkowski B lines p = Inr ?c"
    by (simp add: combine_t_test_and_minkowski_def assms)
  have keys: "map fst ?c = filter (\<lambda>k. k \<in> set (map fst m)) (map fst t)" by (rule joined_keys)
  have keyset: "set (map fst ?c) = set (map fst t) \<inter> set (map fst m)"
    unfolding keys by auto
  have vals: "\<forall>k tv d. lookup t k = Inr tv \<and> lookup m k = Inr d \<longrightarrow> lookup ?c k = Inr (tv, d)"
  proof (intro allI impI)
    fix k tv d assume a: "lookup t k = Inr tv \<and> lookup m k = Inr d"
    then have "k \<in> set (map fst t)" using lookup_Inr_key by fast
    with a show "lookup ?c k = Inr (tv, d)"
      by (simp add: lookup_Inr_iff joined_map_of)
  qed
  from run keyset keys vals show ?thesis by blast
qed

lemma py_round_int: "py_round (of_int i) n = of_int i"
proof -
  have "real_of_int i * 10 ^ n = of_int (i * 10 ^ n)" by simp
  then have "\<lfloor>real_of_int i * 10 ^ n\<rfloor> = i * 10 ^ n" by (metis floor_of_int)
  then show ?thesis by (simp add: py_round_def Let_def)
qed

lemma t_statistic_example: "t_statistic [1, 3] [1, 1] = Inr 1"
  by (simp add: t_statistic_closed sample_variance_def)

lemma join_header:
  "py_cells plain_builtins
     ''country,number of employees,median Salary,profits in 2020(million),profits in 2021(million)''
   = [''country'', ''number of employees'', ''median Salary'',
      ''profits in 2020(million)'', ''profits in 2021(million)'']"
  by (simp add: plain_builtins_def)

lemma join_tt_row1:
  "tt_row plain_builtins
     [''country'', ''number of employees'', ''median Salary'',
      ''profits in 2020(million)'', ''profits in 2021(million)'']
     (Suc (Suc (Suc 0))) (Suc (Suc (Suc (Suc 0)))) ''X,10,10,1,1'' ([], [])
   = Inr ([(''X'', [1])], [(''X'', [1])])"
  by (simp add: tt_row_def plain_eval)

lemma join_tt_row2:
  "tt_row plain_builtins
     [''country'', ''number of employees'', ''median Salary'',
      ''profits in 2020(million)'', ''profits in 2021(million)'']
     (Suc (Suc (Suc 0))) (Suc (Suc (Suc (Suc 0)))) ''X,12,10,3,1''
     ([(''X'', [1])], [(''X'', [1])])
   = Inr ([(''X'', [1, 3])], [(''X'', [1, 1])])"
  by (simp add: tt_row_def plain_eval)

lemma join_md_row1:
  "md_row plain_builtins
     [''country'', ''number of employees'', ''median Salary'',
      ''profits in 2020(million)'', ''profits in 2021(million)'']
     (Suc 0) (Suc (Suc 0)) ''X,10,10,1,1'' []
   = Inr [(''X'', [(10, 10)])]"
  by (simp add: md_row_def plain_eval)

lemma join_md_row2:
  "md_row plain_builtins
     [''country'', ''number of employees'', ''median Salary'',
      ''profits in 2020(million)'', ''profits in 2021(million)'']
     (Suc 0) (Suc (Suc 0)) ''X,12,10,3,1'' [(''X'', [(10, 10)])]
   = Inr [(''X'', [(10, 10), (12, 10)])]"
  by (simp add: md_row_def plain_eval)

lemma combine_example_t:
  "calculate_t_test plain_builtins
     [''country,number of employees,median Salary,profits in 2020(million),profits in 2021(million)'',
      ''X,10,10,1,1'', ''X,12,10,3,1''] = Inr [(''X'', 1)]"
proof -
  have "tt_collect plain_builtins
     [''country,number of employees,median Salary,profits in 2020(million),profits in 2021(million)'',
      ''X,10,10,1,1'', ''X,12,10,3,1''] = Inr ([(''X'', [1, 3])], [(''X'', [1, 1])])"
    by (simp add: tt_collect_def item_def join_header join_tt_row1 join_tt_row2)
  then show ?thesis
    using py_round_int[of 1 4]
    by (simp add: calculate_t_test_def tt_group_def lookup_def t_statistic_example)
qed

lemma combine_example_m:
  "calculate_minkowski_distances plain_builtins
     [''country,number of employees,median Salary,profits in 2020(million),profits in 2021(million)'',
      ''X,10,10,1,1'', ''X,12,10,3,1''] 1 = Inr [(''X'', 2)]"
proof -
  have "md_collect plain_builtins
     [''country,number of employees,median Salary,profits in 2020(million),profits in 2021(million)'',
      ''X,10,10,1,1'', ''X,12,10,3,1''] = Inr [(''X'', [(10, 10), (12, 10)])]"
    by (simp add: md_collect_def item_def join_header join_md_row1 join_md_row2)
  moreover have "minkowski_distance [10, 12] [10, 10] 1 = Inr 2"
    by (simp add: minkowski_distance_def py_pow_def py_truediv_def)
  ultimately show ?thesis
    using py_round_int[of 2 4]
    by (simp add: calculate_minkowski_distances_def md_group_def)
qed

theorem combine_is_inner_join_witness:
  "calculate_t_test plain_builtins
     [''country,number of employees,median Salary,profits in 2020(million),profits in 2021(million)'',
      ''X,10,10,1,1'', ''X,12,10,3,1''] = Inr [(''X'', 1)] \<and>
   calculate_minkowski_distances plain_builtins
     [''country,number of employees,median Salary,profits in 2020(million),profits in 2021(million)'',
      ''X,10,10,1,1'', ''X,12,10,3,1''] 1 = Inr [(''X'', 2)] \<and>
   combine_t_test_and_minkowski plain_builtins
     [''country,number of employees,median Salary,profits in 2020(million),profits in 2021(million)'',
      ''X,10,10,1,1'', ''X,12,10,3,1''] 1 = Inr [(''X'', 1, 2)]"
proof -
  from combine_is_inner_join[OF combine_example_t combine_example_m]
  obtain c where all: "combine_t_test_and_minkowski plain_builtins
     [''country,number of employees,median Salary,profits in 2020(million),profits in 2021(million)'',
      ''X,10,10,1,1'', ''X,12,10,3,1''] 1 = Inr c \<and>
     set (map fst c) = set (map fst [(''X'', 1 :: real)]) \<inter> set (map fst [(''X'', 2 :: real)]) \<and>
     map fst c = filter (\<lambda>k. k \<in> set (map fst [(''X'', 2 :: real)])) (map fst [(''X'', 1 :: real)]) \<and>
     (\<forall>k tv d. lookup [(''X'', 1 :: real)] k = Inr tv \<and> lookup [(''X'', 2 :: real)] k = Inr d
              \<longrightarrow> lookup c k = Inr (tv, d))" ..
  from all have c: "combine_t_test_and_minkowski plain_builtins
     [''country,number of employees,median Salary,profits in 2020(million),profits in 2021(million)'',
      ''X,10,10,1,1'', ''X,12,10,3,1''] 1 = Inr c" by (rule conjunct1)
  from all have k: "map fst c = filter (\<lambda>k. k \<in> set (map fst [(''X'', 2 :: real)])) (map fst [(''X'', 1 :: real)])"
    by (elim conjE)
  from all have v: "\<forall>k tv d. lookup [(''X'', 1 :: real)] k = Inr tv \<and> lookup [(''X'', 2 :: real)] k = Inr d
              \<longrightarrow> lookup c k = Inr (tv, d)"
    by (elim conjE)
  from k have k': "map fst c = [''X'']" by simp
  from v have "lookup [(''X'', 1 :: real)] ''X'' = Inr 1 \<and> lookup [(''X'', 2 :: real)] ''X'' = Inr 2
      \<longrightarrow> lookup c ''X'' = Inr (1, 2)" by (elim allE)
  then have v': "lookup c ''X'' = Inr (1, 2)" by (simp add: lookup_def)
  from k' obtain y where y: "c = [(''X'', y)]" by (cases c) auto
  with v' have "y = (1, 2)" by (simp add: lookup_def)
  with y c have "combine_t_test_and_minkowski plain_builtins
     [''country,number of employees,median Salary,profits in 2020(million),profits in 2021(million)'',
      ''X,10,10,1,1'', ''X,12,10,3,1''] 1 = Inr [(''X'', 1, 2)]" by simp
  with combine_example_t combine_example_m show ?thesis by (intro conjI)
qed

subsection \<open>The category ranking engine\<close>

lemma cd_row_error: "cd_row B row cd = Inl e \<Longrightarrow> e = ZeroDivisionError"
proof -
  assume a: "cd_row B row cd = Inl e"
  show ?thesis
  proof (cases "cd_try B row cd")
    case (Inr cd')
    with a show ?thesis by (simp add: cd_row_def)
  next
    case (Inl e')
    with a have e: "e' = e" and n: "\<not> is_ValueError e" "e \<noteq> IndexError"
      by (auto simp: cd_row_def split: if_splits)
    from Inl e have "cd_try B row cd = Inl e" by simp
    then have "e = IndexError \<or> e = InvalidLiteral \<or> e = ZeroDivisionError"
      by (auto simp: cd_try_def Let_def item_def to_int_def to_float_def py_truediv_def
               split: if_splits option.splits)
    with n show ?thesis by (auto simp: is_ValueError_def)
  qed
qed

lemma cd_row_skipped:
  assumes "skipped_row B row"
  shows "cd_row B row cd = Inr cd"
  using assms
  by (auto simp: skipped_row_def cd_row_def cd_try_def Let_def item_def to_int_def to_float_def
        is_ValueError_def split: option.splits)

lemma cd_row_surviving:
  assumes "cd_row B row cd = Inr cd'"
  shows "cd' = (case surviving B row of
                  None \<Rightarrow> cd
                | Some t \<Rightarrow> store_entry cd (fst t) (fst (snd t)) (snd (snd t)))"
  using assms
  by (auto simp: surviving_def cd_row_def cd_try_def Let_def item_def to_int_def to_float_def
        is_ValueError_def py_truediv_def split: option.splits if_splits)

lemma cd_row_zero_profit:
  assumes "10 \<le> length row" and "py_int B (row ! 6) = Some employees" and "0 < employees"
    and "py_float B (row ! 8) = Some 0" and "py_float B (row ! 9) = Some profit_2021"
  shows "cd_row B row cd = Inl ZeroDivisionError"
  using assms
  by (auto simp: cd_row_def cd_try_def Let_def item_def to_int_def to_float_def
        is_ValueError_def py_truediv_def)

text \<open>
  Claim C7. \<^verbatim>\<open>calculate_category_data\<close> skips a row whose employee count is not positive,
  whose numeric cells do not parse, or that is too short for a fixed position: the row
  raises nothing and leaves the dictionary as it was, so the call goes on with the rows
  after it and returns what it returns without the row. The row has no part in the
  sums of the ranking and adds no percentage.
\<close>

theorem calculate_category_data_skips_row:
  assumes "skipped_row B row"
  shows "cd_row B row category_data = Inr category_data \<and>
         cd_collect B (header # before @ row # after) = cd_collect B (header # before @ after) \<and>
         calculate_category_data B (header # before @ row # after)
           = calculate_category_data B (header # before @ after)"
proof -
  have skip: "\<And>cd. cd_row B row cd = Inr cd" using assms by (rule cd_row_skipped)
  have "for_each (cd_row B) (before @ row # after) []
          = and_then (for_each (cd_row B) before []) (for_each (cd_row B) (row # after))"
    by (rule for_each_append)
  also have "\<dots> = and_then (for_each (cd_row B) before []) (for_each (cd_row B) after)"
    by (cases "for_each (cd_row B) before []") (simp_all add: skip)
  also have "\<dots> = for_each (cd_row B) (before @ after) []"
    by (rule for_each_append[symmetric])
  finally have "cd_collect B (header # before @ row # after) = cd_collect B (header # before @ after)"
    by (simp add: cd_collect_def)
  then show ?thesis by (simp add: skip calculate_category_data_def)
qed

text \<open>
  Claim C9. A row whose five cells are there and parse, with a positive employee count
  and a first profit of zero, raises \<^verbatim>\<open>ZeroDivisionError\<close> in the percentage; the handler
  catches \<^verbatim>\<open>ValueError\<close> and \<^verbatim>\<open>IndexError\<close> only, so the row is not skipped and the whole
  call raises the error, whatever rows stand before and after it.
\<close>

theorem calculate_category_data_zero_profit_aborts:
  assumes "10 \<le> length row" and "py_int B (row ! 6) = Some employees" and "0 < employees"
    and "py_float B (row ! 8) = Some 0" and "py_float B (row ! 9) = Some profit_2021"
  shows "cd_try B row category_data = Inl ZeroDivisionError \<and>
         \<not> (is_ValueError ZeroDivisionError \<or> ZeroDivisionError = IndexError) \<and>
         cd_row B row category_data = Inl ZeroDivisionError \<and>
         calculate_category_data B (header # before @ row # after) = Inl ZeroDivisionError"
proof -
  have here: "\<And>cd. cd_row B row cd = Inl ZeroDivisionError"
    using assms by (rule cd_row_zero_profit)
  have "cd_try B row category_data = Inl ZeroDivisionError"
    using here[of category_data]
    by (cases "cd_try B row category_data") (simp_all add: cd_row_def split: if_splits)
  moreover have "for_each (cd_row B) (before @ row # after) [] = Inl ZeroDivisionError"
  proof (rule for_each_fails)
    show "row \<in> set (before @ row # after)" by simp
    show "\<And>s. cd_row B row s = Inl ZeroDivisionError" by (rule here)
    show "\<And>y s e'. y \<in> set (before @ row # after) \<Longrightarrow> cd_row B y s = Inl e' \<Longrightarrow> e' = ZeroDivisionError"
      by (rule cd_row_error)
  qed
  then have "calculate_category_data B (header # before @ row # after) = Inl ZeroDivisionError"
    by (simp add: calculate_category_data_def cd_collect_def)
  ultimately show ?thesis by (simp add: here is_ValueError_def)
qed

lemma skipped_row_example:
  "skipped_row plain_builtins
     [''b'', [], [], [], [], ''retail'', ''0'', [], ''10'', ''5'']"
  by (simp add: skipped_row_def plain_eval)

theorem calculate_category_data_skips_row_witness:
  "skipped_row plain_builtins
     [''b'', [], [], [], [], ''retail'', ''0'', [], ''10'', ''5''] \<and>
   cd_row plain_builtins
     [''b'', [], [], [], [], ''retail'', ''0'', [], ''10'', ''5''] [] = Inr [] \<and>
   calculate_category_data plain_builtins
     ([] # [[''a'', [], [], [], [], ''retail'', ''50'', [], ''10'', ''11'']]
         @ [''b'', [], [], [], [], ''retail'', ''0'', [], ''10'', ''5'']
         # [[''c'', [], [], [], [], ''retail'', ''70'', [], ''4'', ''5'']])
   = calculate_category_data plain_builtins
     ([] # [[''a'', [], [], [], [], ''retail'', ''50'', [], ''10'', ''11'']]
         @ [[''c'', [], [], [], [], ''retail'', ''70'', [], ''4'', ''5'']])"
  using calculate_category_data_skips_row[OF skipped_row_example,
      of "[]" "[]" "[[''a'', [], [], [], [], ''retail'', ''50'', [], ''10'', ''11'']]"
         "[[''c'', [], [], [], [], ''retail'', ''70'', [], ''4'', ''5'']]"]
    skipped_row_example
  by simp

theorem calculate_category_data_zero_profit_aborts_witness:
  "(10 :: nat) \<le> length [''a'', [], [], [], [], ''Retail'', ''50'', [], ''0'', ''11''] \<and>
   py_int plain_builtins ([''a'', [], [], [], [], ''Retail'', ''50'', [], ''0'', ''11''] ! 6) = Some 50 \<and>
   (0 :: int) < 50 \<and>
   py_float plain_builtins ([''a'', [], [], [], [], ''Retail'', ''50'', [], ''0'', ''11''] ! 8) = Some 0 \<and>
   py_float plain_builtins ([''a'', [], [], [], [], ''Retail'', ''50'', [], ''0'', ''11''] ! 9) = Some 11 \<and>
   cd_row plain_builtins [''a'', [], [], [], [], ''Retail'', ''50'', [], ''0'', ''11''] []
     = Inl ZeroDivisionError \<and>
   calculate_category_data plain_builtins
     ([] # [] @ [''a'', [], [], [], [], ''Retail'', ''50'', [], ''0'', ''11''] # [])
     = Inl ZeroDivisionError"
proof -
  have a: "(10 :: nat) \<le> length [''a'', [], [], [], [], ''Retail'', ''50'', [], ''0'', ''11'']"
    by simp
  have b: "py_int plain_builtins ([''a'', [], [], [], [], ''Retail'', ''50'', [], ''0'', ''11''] ! 6) = Some 50"
    by (simp add: plain_eval)
  have c: "(0 :: int) < 50" by simp
  have d: "py_float plain_builtins ([''a'', [], [], [], [], ''Retail'', ''50'', [], ''0'', ''11''] ! 8) = Some 0"
    by (simp add: plain_eval)
  have e: "py_float plain_builtins ([''a'', [], [], [], [], ''Retail'', ''50'', [], ''0'', ''11''] ! 9) = Some 11"
    by (simp add: plain_eval)
  from calculate_category_data_zero_profit_aborts[OF a b c d e, of "[]" "[]" "[]" "[]"]
  have "cd_row plain_builtins [''a'', [], [], [], [], ''Retail'', ''50'', [], ''0'', ''11''] []
          = Inl ZeroDivisionError"
    and "calculate_category_data plain_builtins
          ([] # [] @ [''a'', [], [], [], [], ''Retail'', ''50'', [], ''0'', ''11''] # [])
          = Inl ZeroDivisionError"
    by simp_all
  with a b c d e show ?thesis by (intro conjI)
qed

end
